theory Spec2Isabelle
  imports
    Complex_Main
    "HOL-Library.Multiset"
    "HOL-Library.Product_Lexorder"
    "HOL-Library.List_Lexorder"
    "HOL-Library.Char_ord"
begin

section \<open>Data model: a pandas DataFrame as the toolkit uses it\<close>

text \<open>
  The module \<^verbatim>\<open>src/eda/soporte_preprocesamiento.py\<close> is a thin layer over pandas,
  NumPy and SciPy. The embedding keeps the module's own control flow (the order of the
  calls, the loop over \<^verbatim>\<open>lista_cat\<close>, the \<^verbatim>\<open>if p < sig_level\<close>) and models each
  library routine it calls by what the routine computes on the data.

  A cell holds a number, a string or a boolean; a missing cell (\<^verbatim>\<open>NaN\<close>, \<^verbatim>\<open>None\<close>) is
  \<open>None\<close>. Floating-point numbers are modelled as exact rationals.
\<close>

datatype valor = Num rat | Str string | Bool bool

text \<open>The dtype of a column, as far as \<^verbatim>\<open>select_dtypes\<close> and \<^verbatim>\<open>describe\<close> tell them apart.
  \<open>Categorico cats ord\<close> is pandas' \<^verbatim>\<open>CategoricalDtype(categories=cats, ordered=ord)\<close>.\<close>

datatype dtype = Numerico | Objeto | Booleano | FechaHora | Categorico "valor list" bool

record columna =
  nombre :: string
  tipo :: dtype
  valores :: "valor option list"

text \<open>\<^verbatim>\<open>dataframe.shape\<close> is \<open>(filas, length columnas)\<close>.\<close>

record dataframe =
  filas :: nat
  columnas :: "columna list"

definition bien_formado :: "dataframe \<Rightarrow> bool" where
  "bien_formado df = list_all (\<lambda>c. length (valores c) = filas df) (columnas df)"

text \<open>Exceptions of the Python run time that the modelled calls raise.\<close>

datatype error = KeyError string | ValueError string | TypeError string

text \<open>\<^verbatim>\<open>df[name]\<close>: the column of that name, \<^verbatim>\<open>KeyError(name)\<close> when the schema has none.\<close>

definition getitem :: "dataframe \<Rightarrow> string \<Rightarrow> error + columna" where
  "getitem df n =
     (case find (\<lambda>c. nombre c = n) (columnas df) of
        None \<Rightarrow> Inl (KeyError n)
      | Some c \<Rightarrow> Inr c)"

text \<open>\<^verbatim>\<open>str.upper()\<close> on the ASCII letters.\<close>

definition mayuscula :: "char \<Rightarrow> char" where
  "mayuscula c =
     (if 97 \<le> (of_char c :: nat) \<and> (of_char c :: nat) \<le> 122
      then char_of ((of_char c :: nat) - 32) else c)"

definition upper :: "string \<Rightarrow> string" where
  "upper s = map mayuscula s"

section \<open>The contingency table: \<^verbatim>\<open>pd.crosstab\<close>\<close>

text \<open>
  \<^verbatim>\<open>pd.crosstab(a, b)\<close> groups the rows by the pair of values and counts them; a row in
  which either value is missing belongs to no group. The row labels are the distinct
  values of \<open>a\<close> that occur in such a row, the column labels those of \<open>b\<close>, both sorted.
\<close>

record tabla =
  indice :: "valor list"
  cabecera :: "valor list"
  celdas :: "nat list list"

fun ambos :: "valor option \<times> valor option \<Rightarrow> (valor \<times> valor) option" where
  "ambos (Some x, Some y) = Some (x, y)"
| "ambos _ = None"

definition presentes :: "valor option list \<Rightarrow> valor option list \<Rightarrow> (valor \<times> valor) list" where
  "presentes xs ys = List.map_filter ambos (zip xs ys)"

text \<open>The sort key of a label: numbers by value, strings lexicographically, \<open>False < True\<close>.
  Labels of one column are of one kind; the order between kinds is fixed here only to
  make the function total.\<close>

fun clave :: "valor \<Rightarrow> nat \<times> rat \<times> string" where
  "clave (Num r) = (0, r, [])"
| "clave (Str s) = (1, 0, s)"
| "clave (Bool b) = (2, (if b then 1 else 0), [])"

definition etiquetas :: "valor list \<Rightarrow> valor list" where
  "etiquetas vs = sort_key clave (remdups vs)"

definition crosstab :: "valor option list \<Rightarrow> valor option list \<Rightarrow> tabla" where
  "crosstab xs ys =
     (let ps = presentes xs ys;
          fs = etiquetas (map fst ps);
          cs = etiquetas (map snd ps)
      in \<lparr>indice = fs, cabecera = cs,
          celdas = map (\<lambda>f. map (\<lambda>c. count_list ps (f, c)) cs) fs\<rparr>)"

section \<open>The test: \<^verbatim>\<open>scipy.stats.chi2_contingency\<close>\<close>

text \<open>Marginal sums of a matrix given as a list of rows (\<^verbatim>\<open>sum(axis=1)\<close>, \<^verbatim>\<open>sum(axis=0)\<close>)
  and the sum of all its cells.\<close>

definition sumas_filas :: "'a::comm_monoid_add list list \<Rightarrow> 'a list" where
  "sumas_filas m = map sum_list m"

definition sumas_columnas :: "nat \<Rightarrow> 'a::comm_monoid_add list list \<Rightarrow> 'a list" where
  "sumas_columnas n m = map (\<lambda>j. sum_list (map (\<lambda>f. f ! j) m)) [0..<n]"

definition gran_total :: "'a::comm_monoid_add list list \<Rightarrow> 'a" where
  "gran_total m = sum_list (map sum_list m)"

text \<open>
  \<^verbatim>\<open>scipy.stats.contingency.expected_freq\<close> in two dimensions: the outer product of
  the marginal sums over the grand total. SciPy computes these in binary floating
  point; the rationals here are the exact values that its cells approximate. The
  theorems below use the expected table only through the test for a zero cell, which
  is the same in both arithmetics for positive counts, and as the table that is
  displayed; none of them is about the size of a rounding error.
\<close>

definition expected_freq :: "tabla \<Rightarrow> rat list list" where
  "expected_freq t =
     (let rs = sumas_filas (celdas t);
          cs = sumas_columnas (length (cabecera t)) (celdas t);
          n = gran_total (celdas t)
      in map (\<lambda>r. map (\<lambda>c. of_nat r * of_nat c / of_nat n) cs) rs)"

text \<open>Yates' continuity correction, applied by SciPy when there is one degree of freedom:
  each observed count moves towards its expected value by at most one half.\<close>

definition yates :: "rat \<Rightarrow> rat \<Rightarrow> rat" where
  "yates obs esp = obs + min (1 / 2) \<bar>esp - obs\<bar> * sgn (esp - obs)"

definition pearson :: "rat list list \<Rightarrow> rat list list \<Rightarrow> rat" where
  "pearson obs esp =
     gran_total (map (\<lambda>(fo, fe). map (\<lambda>(a, e). (a - e)\<^sup>2 / e) (zip fo fe)) (zip obs esp))"

text \<open>
  \<^verbatim>\<open>chi2_contingency(observed)\<close> returns \<open>(chi2, p, dof, expected)\<close>. It raises
  \<^verbatim>\<open>ValueError\<close> on a table of size zero and on an expected frequency that is zero; with
  zero degrees of freedom it returns the statistic \<open>0\<close> and the p-value \<open>1\<close> without
  consulting the distribution. The survival function of the chi-squared distribution
  is the parameter \<open>sf\<close>. Counts are natural numbers, so SciPy's check for a negative
  entry has no branch here. The model is for tables with a positive grand total, as
  every non-empty table of \<open>crosstab\<close> is (\<open>crosstab_total_positivo\<close> below): on a
  non-empty table of zeros NumPy computes \<^verbatim>\<open>NaN\<close>, which the rationals do not have.
\<close>

definition chi2_contingency ::
  "(rat \<Rightarrow> int \<Rightarrow> rat) \<Rightarrow> tabla \<Rightarrow> error + (rat \<times> rat \<times> int \<times> rat list list)" where
  "chi2_contingency sf t =
     (let nf = length (indice t); nc = length (cabecera t) in
      if nf * nc = 0 then Inl (ValueError ''No data; `observed` has size 0.'')
      else
        let esp = expected_freq t in
        if list_ex (list_ex (\<lambda>e. e = 0)) esp
        then Inl (ValueError ''The internally computed table of expected frequencies has a zero element.'')
        else
          let dof = int (nf * nc) - int (nf + nc) + 2 - 1 in
          if dof = 0 then Inr (0, 1, dof, esp)
          else
            let obs = map (map of_nat) (celdas t);
                obs' = (if dof = 1
                        then map (\<lambda>(fo, fe). map (\<lambda>(a, e). yates a e) (zip fo fe)) (zip obs esp)
                        else obs);
                chi2 = pearson obs' esp
            in Inr (chi2, sf chi2 dof, dof, esp))"

section \<open>The association analyzer: \<^verbatim>\<open>detectar_orden_cat_bina\<close>\<close>

text \<open>NumPy's \<^verbatim>\<open>round\<close>, which \<^verbatim>\<open>DataFrame.round()\<close> applies to every cell: to the nearest
  integer, a tie to the even one.\<close>

definition np_round :: "rat \<Rightarrow> int" where
  "np_round x =
     (let f = \<lfloor>x\<rfloor>; d = x - of_int f in
      if d < 1 / 2 then f
      else if 1 / 2 < d then f + 1
      else if even f then f else f + 1)"

text \<open>What the analyzer prints and displays, in order: the heading of line 345, the
  tables shown by \<^verbatim>\<open>display\<close> (the function that IPython provides), the two messages of
  the decision, and the rule of line 355. A formatted number is carried as the number
  itself.\<close>

datatype salida =
    Evaluando string
  | MostrarTabla tabla
  | SiDiferencias string rat
  | MostrarEsperada "valor list" "valor list" "int list list"
  | NoDiferencias string rat
  | Separador

text \<open>The body of the loop (lines 345 to 355) for one name of \<^verbatim>\<open>lista_cat\<close>: what it has
  output, and the exception that ended it, if any.\<close>

definition evaluar_categoria ::
  "(rat \<Rightarrow> int \<Rightarrow> rat) \<Rightarrow> dataframe \<Rightarrow> string \<Rightarrow> rat \<Rightarrow> string \<Rightarrow> salida list \<times> error option" where
  "evaluar_categoria sf df var_respuesta sig_level categoria =
     (let s0 = [Evaluando (upper categoria)] in
      case getitem df categoria of
        Inl e \<Rightarrow> (s0, Some e)
      | Inr a \<Rightarrow>
          (case getitem df var_respuesta of
             Inl e \<Rightarrow> (s0, Some e)
           | Inr b \<Rightarrow>
               let df_crosstab = crosstab (valores a) (valores b);
                   s1 = s0 @ [MostrarTabla df_crosstab]
               in (case chi2_contingency sf df_crosstab of
                     Inl e \<Rightarrow> (s1, Some e)
                   | Inr (chi2, p, dof, expected) \<Rightarrow>
                       (s1 @
                        (if p < sig_level
                         then [SiDiferencias (upper categoria) p,
                               MostrarEsperada (indice df_crosstab) (cabecera df_crosstab)
                                 (map (map np_round) expected)]
                         else [NoDiferencias (upper categoria) p]) @
                        [Separador], None))))"

text \<open>The function itself: the loop over \<^verbatim>\<open>lista_cat\<close>, which an exception leaves at
  once. The default of \<^verbatim>\<open>sig_level\<close> is 0.05; the model takes it as an argument.\<close>

fun detectar_orden_cat_bina ::
  "(rat \<Rightarrow> int \<Rightarrow> rat) \<Rightarrow> dataframe \<Rightarrow> string list \<Rightarrow> string \<Rightarrow> rat \<Rightarrow> salida list \<times> error option" where
  "detectar_orden_cat_bina sf df [] var_respuesta sig_level = ([], None)"
| "detectar_orden_cat_bina sf df (categoria # resto) var_respuesta sig_level =
     (case evaluar_categoria sf df var_respuesta sig_level categoria of
        (s, Some e) \<Rightarrow> (s, Some e)
      | (s, None) \<Rightarrow>
          (case detectar_orden_cat_bina sf df resto var_respuesta sig_level of
             (s', r) \<Rightarrow> (s @ s', r)))"

section \<open>The dataset profiler: \<^verbatim>\<open>exploracion_datos\<close>\<close>

text \<open>What the profiler prints and displays. The fixed lines of text are constructors of
  their own; a displayed table is carried as its rows.\<close>

datatype informe =
    Forma nat nat
  | Regla
  | Duplicados nat
  | TituloNumericas
  | Describe "(string \<times> nat) list"
  | TituloCategoricas
  | DescribeO "(string \<times> nat \<times> nat) list"
  | TituloNulos
  | TablaNulos "(string \<times> rat) list"
  | TituloUnicos
  | Unicos "(string \<times> nat) list"
  | TituloInfo
  | Info "(string \<times> nat \<times> dtype) list"
  | MostrarNone

text \<open>The rows of the frame, and \<^verbatim>\<open>dataframe.duplicated().sum()\<close>: the number of rows equal
  to an earlier row. pandas answers with an empty series for a frame that has no rows
  or no columns.\<close>

definition filas_de :: "dataframe \<Rightarrow> valor option list list" where
  "filas_de df = map (\<lambda>i. map (\<lambda>c. valores c ! i) (columnas df)) [0..<filas df]"

definition duplicated_sum :: "dataframe \<Rightarrow> nat" where
  "duplicated_sum df =
     (if filas df = 0 \<or> columnas df = [] then 0
      else filas df - length (remdups (filas_de df)))"

definition count_col :: "columna \<Rightarrow> nat" where
  "count_col c = length (filter (\<lambda>v. v \<noteq> None) (valores c))"

definition nunique_col :: "columna \<Rightarrow> nat" where
  "nunique_col c = length (remdups (filter (\<lambda>v. v \<noteq> None) (valores c)))"

definition isnull_sum :: "columna \<Rightarrow> nat" where
  "isnull_sum c = length (filter (\<lambda>v. v = None) (valores c))"

text \<open>
  \<^verbatim>\<open>dataframe.describe()\<close> raises \<^verbatim>\<open>ValueError\<close> on a frame without columns. Otherwise it
  describes the numeric and datetime columns, or every column when there is none of
  these. Of the statistics of each described column the model keeps the count of
  present values; the others are floating-point summaries that no branch depends on.
\<close>

definition describe :: "dataframe \<Rightarrow> error + (string \<times> nat) list" where
  "describe df =
     (if columnas df = [] then Inl (ValueError ''Cannot describe a DataFrame without columns'')
      else
        let sel = filter (\<lambda>c. tipo c = Numerico \<or> tipo c = FechaHora) (columnas df);
            datos = (if sel = [] then columnas df else sel)
        in Inr (map (\<lambda>c. (nombre c, count_col c)) datos))"

text \<open>
  \<^verbatim>\<open>dataframe.describe(include = "O")\<close> describes the columns of dtype \<^verbatim>\<open>object\<close>; with no
  such column pandas has nothing to concatenate and raises \<^verbatim>\<open>ValueError\<close>.
\<close>

definition describe_O :: "dataframe \<Rightarrow> error + (string \<times> nat \<times> nat) list" where
  "describe_O df =
     (if columnas df = [] then Inl (ValueError ''Cannot describe a DataFrame without columns'')
      else
        let sel = filter (\<lambda>c. tipo c = Objeto) (columnas df)
        in if sel = [] then Inl (ValueError ''No objects to concatenate'')
           else Inr (map (\<lambda>c. (nombre c, count_col c, nunique_col c)) sel))"

text \<open>
  Lines 69 and 70: the null counts per column, those above zero divided by the number
  of rows and multiplied by 100, sorted by \<^verbatim>\<open>sort_values(ascending=False)\<close>. pandas sorts
  descending by reversing, sorting ascending and reversing again.
\<close>

definition tabla_nulos :: "dataframe \<Rightarrow> (string \<times> rat) list" where
  "tabla_nulos df =
     (let dataframe_nulos = map (\<lambda>c. (nombre c, isnull_sum c)) (columnas df);
          pct = map (\<lambda>(n, k). (n, of_nat k / of_nat (filas df) * 100))
                  (filter (\<lambda>(n, k). 0 < k) dataframe_nulos)
      in rev (sort_key snd (rev pct)))"

definition exploracion_datos :: "dataframe \<Rightarrow> bool \<Rightarrow> bool \<Rightarrow> informe list \<times> error option" where
  "exploracion_datos df nunique info =
     (let s0 = [Forma (filas df) (length (columnas df)), Regla,
                Duplicados (duplicated_sum df), Regla, TituloNumericas]
      in case describe df of
           Inl e \<Rightarrow> (s0, Some e)
         | Inr d \<Rightarrow>
             let s1 = s0 @ [Describe d, Regla, TituloCategoricas]
             in (case describe_O df of
                   Inl e \<Rightarrow> (s1, Some e)
                 | Inr d_o \<Rightarrow>
                     (s1 @ [DescribeO d_o, Regla, TituloNulos, TablaNulos (tabla_nulos df)] @
                      (if nunique
                       then [Regla, TituloUnicos,
                             Unicos (map (\<lambda>c. (nombre c, nunique_col c)) (columnas df))]
                       else []) @
                      (if info
                       then [Regla, TituloInfo,
                             Info (map (\<lambda>c. (nombre c, count_col c, tipo c)) (columnas df)),
                             MostrarNone]
                       else []), None)))"

section \<open>The class \<^verbatim>\<open>Visualizador\<close>\<close>

text \<open>
  \<^verbatim>\<open>__init__\<close> stores the frame it is given, not a copy: the attribute and the caller's
  variable name one object. The objects live in a store, and the attribute is the
  address of the caller's frame.
\<close>

type_synonym memoria = "nat \<Rightarrow> dataframe"

record visualizador =
  dataframe_ref :: nat

definition visualizador_init :: "nat \<Rightarrow> visualizador" where
  "visualizador_init r = \<lparr>dataframe_ref = r\<rparr>"

text \<open>\<^verbatim>\<open>select_dtypes(include=...)\<close> for the two selections the class makes: \<^verbatim>\<open>np.number\<close>
  and \<^verbatim>\<open>"O"\<close>. The result is a new frame with the selected columns in their order.\<close>

datatype seleccion = NpNumber | ObjectO

fun coincide :: "seleccion \<Rightarrow> dtype \<Rightarrow> bool" where
  "coincide NpNumber t = (t = Numerico)"
| "coincide ObjectO t = (t = Objeto)"

definition select_dtypes :: "seleccion \<Rightarrow> dataframe \<Rightarrow> dataframe" where
  "select_dtypes inc df = df\<lparr>columnas := filter (\<lambda>c. coincide inc (tipo c)) (columnas df)\<rparr>"

definition separar_dataframes :: "visualizador \<Rightarrow> memoria \<Rightarrow> dataframe \<times> dataframe" where
  "separar_dataframes self m =
     (select_dtypes NpNumber (m (dataframe_ref self)), select_dtypes ObjectO (m (dataframe_ref self)))"

text \<open>
  \<^verbatim>\<open>pd.Categorical(values, categories=order, ordered=True)\<close>: a value outside the
  categories becomes missing, a missing value stays missing. pandas refuses categories
  that repeat.
\<close>

definition restringir :: "valor list \<Rightarrow> valor option \<Rightarrow> valor option" where
  "restringir ord v =
     (case v of None \<Rightarrow> None | Some x \<Rightarrow> if x \<in> set ord then Some x else None)"

definition categorical :: "valor option list \<Rightarrow> valor list \<Rightarrow> error + (dtype \<times> valor option list)" where
  "categorical vs ord =
     (if distinct ord then Inr (Categorico ord True, map (restringir ord) vs)
      else Inl (ValueError ''Categorical categories must be unique''))"

text \<open>\<^verbatim>\<open>df[name] = ...\<close>: the column of that name is replaced where it stands; a new name
  is appended.\<close>

definition setitem :: "dataframe \<Rightarrow> string \<Rightarrow> dtype \<Rightarrow> valor option list \<Rightarrow> dataframe" where
  "setitem df n t vs =
     (if n \<in> set (map nombre (columnas df))
      then df\<lparr>columnas := map (\<lambda>c. if nombre c = n then c\<lparr>tipo := t, valores := vs\<rparr> else c)
                              (columnas df)\<rparr>
      else df\<lparr>columnas := columnas df @ [\<lparr>nombre = n, tipo = t, valores = vs\<rparr>]\<rparr>)"

text \<open>\<^verbatim>\<open>Series.mean()\<close>: the mean of the present values, \<^verbatim>\<open>NaN\<close> (here \<open>None\<close>) when there is
  none; \<^verbatim>\<open>TypeError\<close> on a categorical column and on values that are not numbers.\<close>

fun numero :: "valor \<Rightarrow> rat option" where
  "numero (Num r) = Some r"
| "numero (Bool b) = Some (if b then 1 else 0)"
| "numero (Str s) = None"

definition mean :: "columna \<Rightarrow> error + rat option" where
  "mean c =
     (let ps = List.map_filter id (valores c) in
      if (case tipo c of Categorico cs b \<Rightarrow> True | _ \<Rightarrow> False) \<or> list_ex (\<lambda>v. numero v = None) ps
      then Inl (TypeError ''does not support reduction mean'')
      else let ns = List.map_filter numero ps
           in Inr (if ns = [] then None else Some (sum_list ns / of_nat (length ns))))"

datatype grafico =
    Figure
  | Lineplot string string
  | Axhline "rat option"
  | Despine
  | Xlabel string

text \<open>
  \<^verbatim>\<open>analisis_temporal\<close>. The assignment of line 252 writes to the caller's frame. The
  drawing itself belongs to seaborn: \<open>lineplot\<close> is the parameter that says whether
  \<^verbatim>\<open>sns.lineplot\<close> raises on the frame it is given. The result is the store after the
  call, what was drawn, and the exception that ended the call, if any.
\<close>

definition analisis_temporal ::
  "(dataframe \<Rightarrow> string \<Rightarrow> string \<Rightarrow> error option) \<Rightarrow> visualizador \<Rightarrow> string \<Rightarrow> string \<Rightarrow>
   valor list \<Rightarrow> memoria \<Rightarrow> memoria \<times> grafico list \<times> error option" where
  "analisis_temporal lineplot self var_respuesta var_temporal ord m =
     (let r = dataframe_ref self in
      case getitem (m r) var_temporal of
        Inl e \<Rightarrow> (m, [Figure], Some e)
      | Inr c \<Rightarrow>
          (case categorical (valores c) ord of
             Inl e \<Rightarrow> (m, [Figure], Some e)
           | Inr (t, vs) \<Rightarrow>
               let m' = m(r := setitem (m r) var_temporal t vs) in
               (case lineplot (m' r) var_temporal var_respuesta of
                  Some e \<Rightarrow> (m', [Figure], Some e)
                | None \<Rightarrow>
                    (case getitem (m' r) var_respuesta of
                       Inl e \<Rightarrow> (m', [Figure, Lineplot var_temporal var_respuesta], Some e)
                     | Inr y \<Rightarrow>
                         (case mean y of
                            Inl e \<Rightarrow> (m', [Figure, Lineplot var_temporal var_respuesta], Some e)
                          | Inr mean_page_values \<Rightarrow>
                              (m', [Figure, Lineplot var_temporal var_respuesta,
                                    Axhline mean_page_values, Despine, Xlabel ''Month''],
                               None))))))"

section \<open>Example data\<close>

text \<open>Small datasets on which the theorems below are instantiated.\<close>

text \<open>Four rows; \<open>sexo\<close> and \<open>compra\<close> each have one missing value.\<close>

definition df_faltantes :: dataframe where
  "df_faltantes = \<lparr>filas = 4, columnas =
     [\<lparr>nombre = ''sexo'', tipo = Objeto,
        valores = [Some (Str ''M''), None, Some (Str ''F''), Some (Str ''M'')]\<rparr>,
      \<lparr>nombre = ''compra'', tipo = Numerico,
        valores = [Some (Num 1), Some (Num 0), None, Some (Num 0)]\<rparr>]\<rparr>"

text \<open>One column of each of four dtypes.\<close>

definition df_mixto :: dataframe where
  "df_mixto = \<lparr>filas = 2, columnas =
     [\<lparr>nombre = ''ciudad'', tipo = Objeto, valores = [Some (Str ''Lugo''), Some (Str ''Vigo'')]\<rparr>,
      \<lparr>nombre = ''activo'', tipo = Booleano, valores = [Some (Bool True), Some (Bool False)]\<rparr>,
      \<lparr>nombre = ''edad'', tipo = Numerico, valores = [Some (Num 31), None]\<rparr>,
      \<lparr>nombre = ''alta'', tipo = FechaHora, valores = [Some (Num 0), Some (Num 1)]\<rparr>]\<rparr>"

text \<open>Four rows; \<open>ciudad\<close> has one missing value, \<open>renta\<close> two, \<open>edad\<close> none.\<close>

definition df_nulos :: dataframe where
  "df_nulos = \<lparr>filas = 4, columnas =
     [\<lparr>nombre = ''ciudad'', tipo = Objeto,
        valores = [Some (Str ''Lugo''), None, Some (Str ''Vigo''), Some (Str ''Lugo'')]\<rparr>,
      \<lparr>nombre = ''edad'', tipo = Numerico,
        valores = [Some (Num 31), Some (Num 40), Some (Num 25), Some (Num 31)]\<rparr>,
      \<lparr>nombre = ''renta'', tipo = Numerico,
        valores = [None, Some (Num 10), None, Some (Num 12)]\<rparr>]\<rparr>"

text \<open>A month column with a value outside the order list and a missing value.\<close>

definition df_meses :: dataframe where
  "df_meses = \<lparr>filas = 3, columnas =
     [\<lparr>nombre = ''mes'', tipo = Objeto,
        valores = [Some (Str ''Jan''), Some (Str ''Ene''), None]\<rparr>,
      \<lparr>nombre = ''ventas'', tipo = Numerico,
        valores = [Some (Num 3), Some (Num 5), Some (Num 4)]\<rparr>]\<rparr>"

text \<open>Two datasets without rows: one with an object column, one with a numeric column only.\<close>

definition df_vacio_objeto :: dataframe where
  "df_vacio_objeto = \<lparr>filas = 0, columnas =
     [\<lparr>nombre = ''ciudad'', tipo = Objeto, valores = []\<rparr>,
      \<lparr>nombre = ''edad'', tipo = Numerico, valores = []\<rparr>]\<rparr>"

definition df_vacio_numerico :: dataframe where
  "df_vacio_numerico = \<lparr>filas = 0, columnas =
     [\<lparr>nombre = ''edad'', tipo = Numerico, valores = []\<rparr>]\<rparr>"

text \<open>
  The examples need a function in the place of the survival function of the
  chi-squared distribution. This one is 1 at 0 and decreases in the statistic; it is
  not that survival function, and no theorem about the analyzer depends on it.
\<close>

definition sf_ejemplo :: "rat \<Rightarrow> int \<Rightarrow> rat" where
  "sf_ejemplo x k = 1 / (1 + x)\<^sup>2"

definition sexo_ej :: "valor option list" where
  "sexo_ej = [Some (Str ''M''), Some (Str ''M''), Some (Str ''M''), Some (Str ''M''),
              Some (Str ''F''), Some (Str ''F''), Some (Str ''F''), Some (Str ''F'')]"

definition compra_ej :: "valor option list" where
  "compra_ej = [Some (Num 1), Some (Num 0), Some (Num 0), Some (Num 0),
                Some (Num 1), Some (Num 1), Some (Num 1), Some (Num 0)]"

text \<open>Eight rows: \<open>sexo\<close> has two values, \<open>zona\<close> a single one, \<open>canal\<close> none at all.\<close>

definition df_compras :: dataframe where
  "df_compras = \<lparr>filas = 8, columnas =
     [\<lparr>nombre = ''sexo'', tipo = Objeto, valores = sexo_ej\<rparr>,
      \<lparr>nombre = ''zona'', tipo = Objeto, valores = replicate 8 (Some (Str ''N''))\<rparr>,
      \<lparr>nombre = ''canal'', tipo = Objeto, valores = replicate 8 None\<rparr>,
      \<lparr>nombre = ''compra'', tipo = Numerico, valores = compra_ej\<rparr>]\<rparr>"

text \<open>Twelve rows in which the response follows the group closely.\<close>

definition df_fuerte :: dataframe where
  "df_fuerte = \<lparr>filas = 12, columnas =
     [\<lparr>nombre = ''grupo'', tipo = Objeto,
        valores = replicate 6 (Some (Str ''A'')) @ replicate 6 (Some (Str ''B''))\<rparr>,
      \<lparr>nombre = ''compra'', tipo = Numerico,
        valores = replicate 6 (Some (Num 1)) @ replicate 6 (Some (Num 0))\<rparr>]\<rparr>"

section \<open>Properties of the contingency table\<close>

lemma distinct_etiquetas: "distinct (etiquetas vs)"
  by (simp add: etiquetas_def)

lemma set_etiquetas: "set (etiquetas vs) = set vs"
  by (simp add: etiquetas_def)

lemma total_cuenta:
  assumes "distinct fs" "distinct cs" "set ps \<subseteq> set fs \<times> set cs"
  shows "gran_total (map (\<lambda>f. map (\<lambda>c. count_list ps (f, c)) cs) fs) = length ps"
proof -
  have "gran_total (map (\<lambda>f. map (\<lambda>c. count_list ps (f, c)) cs) fs)
        = (\<Sum>f\<in>set fs. \<Sum>c\<in>set cs. count_list ps (f, c))"
    using assms(1,2) by (simp add: gran_total_def comp_def sum_list_distinct_conv_sum_set)
  also have "\<dots> = sum (count_list ps) (set fs \<times> set cs)"
    by (simp add: sum.cartesian_product)
  also have "\<dots> = length ps"
    using assms(3) by (simp add: sum_count_set)
  finally show ?thesis .
qed

lemma total_crosstab: "gran_total (celdas (crosstab xs ys)) = length (presentes xs ys)"
  unfolding crosstab_def Let_def
  by (simp, rule total_cuenta) (auto simp: distinct_etiquetas set_etiquetas intro: rev_image_eqI)

lemma map_filter_ambos_length:
  "length (List.map_filter ambos zs) = length (filter (\<lambda>(a, b). a \<noteq> None \<and> b \<noteq> None) zs)"
proof (induction zs)
  case Nil
  show ?case by simp
next
  case (Cons z zs)
  obtain a b where z: "z = (a, b)" by (cases z)
  show ?case using Cons by (cases a; cases b) (simp_all add: z)
qed

lemma length_presentes:
  "length (presentes xs ys) = length (filter (\<lambda>(a, b). a \<noteq> None \<and> b \<noteq> None) (zip xs ys))"
  by (simp add: presentes_def map_filter_ambos_length)

lemma count_map_filter_ambos:
  "count_list (List.map_filter ambos zs) (f, c) = count_list zs (Some f, Some c)"
proof (induction zs)
  case Nil
  show ?case by simp
next
  case (Cons z zs)
  obtain a b where z: "z = (a, b)" by (cases z)
  show ?case using Cons by (cases a; cases b) (auto simp: z)
qed

lemma celda_crosstab:
  assumes "i < length (indice (crosstab xs ys))" "j < length (cabecera (crosstab xs ys))"
  shows "celdas (crosstab xs ys) ! i ! j =
         count_list (zip xs ys) (Some (indice (crosstab xs ys) ! i), Some (cabecera (crosstab xs ys) ! j))"
  using assms by (simp add: crosstab_def Let_def presentes_def count_map_filter_ambos)

lemma evaluar_categoria_tabla:
  assumes "getitem df categoria = Inr a" "getitem df var_respuesta = Inr b"
  shows "take 2 (fst (evaluar_categoria sf df var_respuesta sig_level categoria)) =
         [Evaluando (upper categoria), MostrarTabla (crosstab (valores a) (valores b))]"
  using assms by (simp add: evaluar_categoria_def Let_def split: sum.splits prod.splits)

section \<open>Claims about the contingency table and the split by dtype\<close>

text \<open>
  C9. The table that the analyzer builds for a column counts only the rows in which
  both the categorical value and the response value are present: every cell is the
  number of rows holding exactly that pair of present values, and the grand total is
  the number of rows with both values present, which can be less than the row count
  of the dataset.
\<close>

theorem tabla_excluye_faltantes:
  assumes "getitem df categoria = Inr a" and "getitem df var_respuesta = Inr b"
  shows "\<exists>t. take 2 (fst (evaluar_categoria sf df var_respuesta sig_level categoria)) =
              [Evaluando (upper categoria), MostrarTabla t] \<and>
             t = crosstab (valores a) (valores b) \<and>
             gran_total (celdas t) =
               length (filter (\<lambda>(x, y). x \<noteq> None \<and> y \<noteq> None) (zip (valores a) (valores b))) \<and>
             (\<forall>i < length (indice t). \<forall>j < length (cabecera t).
                celdas t ! i ! j =
                  count_list (zip (valores a) (valores b)) (Some (indice t ! i), Some (cabecera t ! j)))"
  using assms
  by (simp add: evaluar_categoria_tabla total_crosstab length_presentes celda_crosstab)

text \<open>Four rows, two of them with a missing value: the table has the single row \<open>M\<close> and
  a grand total of two.\<close>

theorem tabla_excluye_faltantes_witness:
  "\<exists>a b. getitem df_faltantes ''sexo'' = Inr a \<and> getitem df_faltantes ''compra'' = Inr b \<and>
      gran_total (celdas (crosstab (valores a) (valores b))) = 2 \<and> filas df_faltantes = 4 \<and>
      crosstab (valores a) (valores b) =
        \<lparr>indice = [Str ''M''], cabecera = [Num 0, Num 1], celdas = [[1, 1]]\<rparr>"
proof -
  define a where "a = \<lparr>nombre = ''sexo'', tipo = Objeto,
        valores = [Some (Str ''M''), None, Some (Str ''F''), Some (Str ''M'')]\<rparr>"
  define b where "b = \<lparr>nombre = ''compra'', tipo = Numerico,
        valores = [Some (Num 1), Some (Num 0), None, Some (Num 0)]\<rparr>"
  have ha: "getitem df_faltantes ''sexo'' = Inr a"
    by (simp add: getitem_def df_faltantes_def a_def)
  have hb: "getitem df_faltantes ''compra'' = Inr b"
    by (simp add: getitem_def df_faltantes_def b_def)
  have "gran_total (celdas (crosstab (valores a) (valores b))) = 2"
    using tabla_excluye_faltantes [OF ha hb] by (simp add: a_def b_def)
  moreover have "crosstab (valores a) (valores b) =
      \<lparr>indice = [Str ''M''], cabecera = [Num 0, Num 1], celdas = [[1, 1]]\<rparr>"
    by (simp add: a_def b_def crosstab_def presentes_def etiquetas_def)
  ultimately show ?thesis using ha hb by (simp add: df_faltantes_def)
qed

text \<open>
  C10. \<^verbatim>\<open>separar_dataframes\<close> returns the numeric columns and the object columns of the
  frame, each part in the frame's column order and with the frame's rows; a column of
  any other dtype is in neither part.
\<close>

theorem separar_dataframes_tipos:
  "columnas (fst (separar_dataframes self m)) =
     filter (\<lambda>c. tipo c = Numerico) (columnas (m (dataframe_ref self))) \<and>
   columnas (snd (separar_dataframes self m)) =
     filter (\<lambda>c. tipo c = Objeto) (columnas (m (dataframe_ref self))) \<and>
   filas (fst (separar_dataframes self m)) = filas (m (dataframe_ref self)) \<and>
   filas (snd (separar_dataframes self m)) = filas (m (dataframe_ref self)) \<and>
   (\<forall>c \<in> set (columnas (m (dataframe_ref self))).
      tipo c \<noteq> Numerico \<and> tipo c \<noteq> Objeto \<longrightarrow>
        c \<notin> set (columnas (fst (separar_dataframes self m))) \<and>
        c \<notin> set (columnas (snd (separar_dataframes self m))))"
  by (simp add: separar_dataframes_def select_dtypes_def cong: filter_cong)

text \<open>Of four columns, one lands in each part; the boolean and the datetime column are in
  neither.\<close>

theorem separar_dataframes_tipos_witness:
  "map nombre (columnas (fst (separar_dataframes (visualizador_init 0) (\<lambda>r. df_mixto)))) = [''edad''] \<and>
   map nombre (columnas (snd (separar_dataframes (visualizador_init 0) (\<lambda>r. df_mixto)))) = [''ciudad''] \<and>
   map nombre (columnas df_mixto) = [''ciudad'', ''activo'', ''edad'', ''alta'']"
  using separar_dataframes_tipos [of "visualizador_init 0" "\<lambda>r. df_mixto"]
  by (simp add: visualizador_init_def df_mixto_def)

section \<open>Claims about the null report and the temporal helper\<close>

lemma tabla_nulos_eq:
  "tabla_nulos df =
     rev (sort_key snd (rev (map (\<lambda>c. (nombre c, of_nat (isnull_sum c) / of_nat (filas df) * 100))
                               (filter (\<lambda>c. 0 < isnull_sum c) (columnas df)))))"
  by (simp add: tabla_nulos_def Let_def filter_map comp_def)

lemma sorted_desc_rev_sort_key:
  fixes xs :: "('a \<times> rat) list"
  shows "sorted_wrt (\<lambda>a b. snd b \<le> snd a) (rev (sort_key snd xs))"
proof -
  have "sorted (map snd (sort_key snd xs))" by simp
  then have "sorted_wrt (\<lambda>a b. snd a \<le> snd b) (sort_key snd xs)"
    by (simp add: sorted_wrt_map)
  then show ?thesis by (simp add: sorted_wrt_rev)
qed

lemma exploracion_datos_tabla_nulos:
  "snd (exploracion_datos df nunique info) = None \<Longrightarrow>
   TablaNulos (tabla_nulos df) \<in> set (fst (exploracion_datos df nunique info))"
  by (auto simp: exploracion_datos_def Let_def split: sum.splits)

text \<open>
  C7. The null report of the profiler holds exactly the columns with at least one
  missing value, each with the percentage of rows missing in it (the null count over
  the row count, times 100), in descending order of that percentage; a column without
  missing values has no entry. Whenever the profiler returns, this table is part of
  what it displayed.
\<close>

theorem tabla_nulos_contenido:
  "mset (tabla_nulos df) =
     mset (map (\<lambda>c. (nombre c, of_nat (isnull_sum c) / of_nat (filas df) * 100))
               (filter (\<lambda>c. 0 < isnull_sum c) (columnas df))) \<and>
   sorted_wrt (\<lambda>a b. snd b \<le> snd a) (tabla_nulos df) \<and>
   (\<forall>e \<in> set (tabla_nulos df). \<exists>c \<in> set (columnas df).
      nombre c = fst e \<and> 0 < isnull_sum c \<and>
      snd e = of_nat (isnull_sum c) / of_nat (filas df) * 100) \<and>
   (snd (exploracion_datos df nunique info) = None \<longrightarrow>
      TablaNulos (tabla_nulos df) \<in> set (fst (exploracion_datos df nunique info)))"
proof -
  let ?pct = "map (\<lambda>c. (nombre c, of_nat (isnull_sum c) / of_nat (filas df) * 100))
               (filter (\<lambda>c. 0 < isnull_sum c) (columnas df))"
  have m: "mset (tabla_nulos df) = mset ?pct"
    by (simp add: tabla_nulos_eq)
  have s: "sorted_wrt (\<lambda>a b. snd b \<le> snd a) (tabla_nulos df)"
    unfolding tabla_nulos_eq by (rule sorted_desc_rev_sort_key)
  have "set (tabla_nulos df) = set ?pct"
    using m by (rule mset_eq_setD)
  then have e: "\<forall>e \<in> set (tabla_nulos df). \<exists>c \<in> set (columnas df).
      nombre c = fst e \<and> 0 < isnull_sum c \<and>
      snd e = of_nat (isnull_sum c) / of_nat (filas df) * 100"
    by auto
  show ?thesis using m s e exploracion_datos_tabla_nulos by blast
qed

text \<open>Of three columns, two have missing values: half of \<open>renta\<close>, a quarter of \<open>ciudad\<close>.\<close>

theorem tabla_nulos_contenido_witness:
  "tabla_nulos df_nulos = [(''renta'', 50), (''ciudad'', 25)] \<and>
   snd (exploracion_datos df_nulos True False) = None \<and>
   TablaNulos [(''renta'', 50), (''ciudad'', 25)] \<in> set (fst (exploracion_datos df_nulos True False))"
proof -
  have t: "tabla_nulos df_nulos = [(''renta'', 50), (''ciudad'', 25)]"
    by (simp add: tabla_nulos_def df_nulos_def isnull_sum_def)
  have r: "snd (exploracion_datos df_nulos True False) = None"
    by (simp add: exploracion_datos_def describe_def describe_O_def df_nulos_def Let_def)
  show ?thesis
    using tabla_nulos_contenido [of df_nulos True False] t r by simp
qed

lemma getitem_nombre: "getitem df n = Inr c \<Longrightarrow> nombre c = n \<and> c \<in> set (columnas df)"
  by (auto simp: getitem_def split: option.splits dest: find_Some_iff[THEN iffD1] simp: in_set_conv_nth)

text \<open>
  C8. A call of \<^verbatim>\<open>analisis_temporal\<close> on a frame that has the temporal column, with an
  order list without repetitions, leaves the caller's frame with that column replaced
  by an ordered categorical over the order list: a value outside the list becomes
  missing, a missing value stays missing. Every other column, the row count and every
  other object of the store are as before. This holds whether or not the drawing that
  follows raises.
\<close>

theorem analisis_temporal_reemplaza:
  assumes "getitem (m (dataframe_ref self)) var_temporal = Inr c" and "distinct ord"
  shows "fst (analisis_temporal lineplot self var_respuesta var_temporal ord m) =
         m(dataframe_ref self :=
             (m (dataframe_ref self))\<lparr>columnas :=
                map (\<lambda>k. if nombre k = var_temporal
                          then k\<lparr>tipo := Categorico ord True,
                                 valores := map (\<lambda>v. case v of None \<Rightarrow> None
                                                      | Some x \<Rightarrow> if x \<in> set ord then Some x else None)
                                              (valores c)\<rparr>
                          else k)
                    (columnas (m (dataframe_ref self)))\<rparr>)"
proof -
  have n: "var_temporal \<in> set (map nombre (columnas (m (dataframe_ref self))))"
    using getitem_nombre [OF assms(1)] by auto
  have r: "restringir ord = (\<lambda>v. case v of None \<Rightarrow> None
                                 | Some x \<Rightarrow> if x \<in> set ord then Some x else None)"
    by (rule ext) (simp add: restringir_def)
  show ?thesis
    using assms n
    by (simp add: analisis_temporal_def categorical_def setitem_def Let_def r
             split: sum.splits option.splits prod.splits)
qed

text \<open>The value \<open>Ene\<close> is not in the order list and becomes missing; \<open>ventas\<close> is untouched.\<close>

theorem analisis_temporal_reemplaza_witness:
  "fst (analisis_temporal (\<lambda>d x y. None) (visualizador_init 7) ''ventas'' ''mes''
          [Str ''Jan'', Str ''Feb''] (\<lambda>r. df_meses)) 7 =
     \<lparr>filas = 3, columnas =
       [\<lparr>nombre = ''mes'', tipo = Categorico [Str ''Jan'', Str ''Feb''] True,
          valores = [Some (Str ''Jan''), None, None]\<rparr>,
        \<lparr>nombre = ''ventas'', tipo = Numerico,
          valores = [Some (Num 3), Some (Num 5), Some (Num 4)]\<rparr>]\<rparr>"
proof -
  have g: "getitem ((\<lambda>r. df_meses) (dataframe_ref (visualizador_init 7))) ''mes'' =
           Inr \<lparr>nombre = ''mes'', tipo = Objeto,
                valores = [Some (Str ''Jan''), Some (Str ''Ene''), None]\<rparr>"
    by (simp add: getitem_def df_meses_def)
  have d: "distinct [Str ''Jan'', Str ''Feb'']" by simp
  show ?thesis
    using analisis_temporal_reemplaza [where lineplot = "\<lambda>d x y. None" and var_respuesta = "''ventas''", OF g d]
    by (simp add: visualizador_init_def df_meses_def)
qed

section \<open>The profiler on a dataset without rows\<close>

lemma vacio_sin_nulos:
  assumes "bien_formado df" "filas df = 0"
  shows "tabla_nulos df = []"
proof -
  have "\<forall>c \<in> set (columnas df). valores c = []"
    using assms by (simp add: bien_formado_def list_all_iff)
  then have "filter (\<lambda>c. 0 < isnull_sum c) (columnas df) = []"
    by (simp add: filter_empty_conv isnull_sum_def)
  then show ?thesis by (simp add: tabla_nulos_eq)
qed

lemma vacio_columnas:
  assumes "bien_formado df" "filas df = 0" "c \<in> set (columnas df)"
  shows "count_col c = 0" and "nunique_col c = 0" and "isnull_sum c = 0"
proof -
  have "valores c = []"
    using assms by (simp add: bien_formado_def list_all_iff)
  then show "count_col c = 0" and "nunique_col c = 0" and "isnull_sum c = 0"
    by (simp_all add: count_col_def nunique_col_def isnull_sum_def)
qed

lemma vacio_describe_eq:
  assumes "bien_formado df" "filas df = 0" "columnas df \<noteq> []"
  shows "describe df =
         Inr (map (\<lambda>c. (nombre c, 0))
                (if filter (\<lambda>c. tipo c = Numerico \<or> tipo c = FechaHora) (columnas df) = []
                 then columnas df
                 else filter (\<lambda>c. tipo c = Numerico \<or> tipo c = FechaHora) (columnas df)))"
  using assms(3) vacio_columnas(1) [OF assms(1,2)]
  by (simp add: describe_def Let_def)

lemma vacio_describe_O_eq:
  assumes "bien_formado df" "filas df = 0" "\<exists>c \<in> set (columnas df). tipo c = Objeto"
  shows "describe_O df =
         Inr (map (\<lambda>c. (nombre c, 0, 0)) (filter (\<lambda>c. tipo c = Objeto) (columnas df)))"
proof -
  have "columnas df \<noteq> []" using assms(3) by auto
  moreover have "filter (\<lambda>c. tipo c = Objeto) (columnas df) \<noteq> []"
    using assms(3) by (simp add: filter_empty_conv)
  ultimately show ?thesis
    using vacio_columnas(1,2) [OF assms(1,2)]
    by (simp add: describe_O_def Let_def)
qed

lemma sin_objeto_describe_O:
  assumes "columnas df \<noteq> []" "\<not> (\<exists>c \<in> set (columnas df). tipo c = Objeto)"
  shows "describe_O df = Inl (ValueError ''No objects to concatenate'')"
  using assms by (simp add: describe_O_def Let_def filter_empty_conv)

text \<open>
  C6, as amended. On a well-formed dataset without rows that has a column of dtype
  \<^verbatim>\<open>object\<close> the profiler returns, and its whole output is fixed: zero rows and zero
  duplicated rows, a count of zero for every column of both statistics tables, zero
  distinct values, an empty null table, and zero for every column in the optional
  parts. Without such a column the call raises \<^verbatim>\<open>ValueError\<close>: at the first statistics
  table when the dataset has no column at all, at the second one otherwise.
\<close>

theorem exploracion_datos_vacio:
  assumes "bien_formado df" and "filas df = 0"
  shows "exploracion_datos df nunique info =
    (if \<exists>c \<in> set (columnas df). tipo c = Objeto
     then ([Forma 0 (length (columnas df)), Regla, Duplicados 0, Regla, TituloNumericas,
            Describe (map (\<lambda>c. (nombre c, 0))
              (if filter (\<lambda>c. tipo c = Numerico \<or> tipo c = FechaHora) (columnas df) = []
               then columnas df
               else filter (\<lambda>c. tipo c = Numerico \<or> tipo c = FechaHora) (columnas df))),
            Regla, TituloCategoricas,
            DescribeO (map (\<lambda>c. (nombre c, 0, 0)) (filter (\<lambda>c. tipo c = Objeto) (columnas df))),
            Regla, TituloNulos, TablaNulos []] @
           (if nunique
            then [Regla, TituloUnicos, Unicos (map (\<lambda>c. (nombre c, 0)) (columnas df))]
            else []) @
           (if info
            then [Regla, TituloInfo, Info (map (\<lambda>c. (nombre c, 0, tipo c)) (columnas df)),
                  MostrarNone]
            else []),
           None)
     else if columnas df = []
     then ([Forma 0 0, Regla, Duplicados 0, Regla, TituloNumericas],
           Some (ValueError ''Cannot describe a DataFrame without columns''))
     else ([Forma 0 (length (columnas df)), Regla, Duplicados 0, Regla, TituloNumericas,
            Describe (map (\<lambda>c. (nombre c, 0))
              (if filter (\<lambda>c. tipo c = Numerico \<or> tipo c = FechaHora) (columnas df) = []
               then columnas df
               else filter (\<lambda>c. tipo c = Numerico \<or> tipo c = FechaHora) (columnas df))),
            Regla, TituloCategoricas],
           Some (ValueError ''No objects to concatenate'')))"
proof (cases "\<exists>c \<in> set (columnas df). tipo c = Objeto")
  case True
  then have ne: "columnas df \<noteq> []" by auto
  have u: "map (\<lambda>c. (nombre c, nunique_col c)) (columnas df) =
           map (\<lambda>c. (nombre c, 0)) (columnas df)"
    using vacio_columnas(2) [OF assms] by simp
  have i: "map (\<lambda>c. (nombre c, count_col c, tipo c)) (columnas df) =
           map (\<lambda>c. (nombre c, 0, tipo c)) (columnas df)"
    using vacio_columnas(1) [OF assms] by simp
  show ?thesis
    using True assms(2) vacio_describe_eq [OF assms ne] vacio_describe_O_eq [OF assms True]
      vacio_sin_nulos [OF assms] u i
    by (simp add: exploracion_datos_def Let_def duplicated_sum_def)
next
  case False
  show ?thesis
  proof (cases "columnas df = []")
    case True
    then show ?thesis
      using False assms(2) by (simp add: exploracion_datos_def Let_def duplicated_sum_def describe_def)
  next
    case ne: False
    show ?thesis
      using False ne assms(2) vacio_describe_eq [OF assms ne] sin_objeto_describe_O [OF ne False]
      by (simp add: exploracion_datos_def Let_def duplicated_sum_def)
  qed
qed

text \<open>A dataset without rows that has an object column: the whole report, with both
  optional parts.\<close>

theorem exploracion_datos_vacio_witness:
  "bien_formado df_vacio_objeto \<and> filas df_vacio_objeto = 0 \<and>
   exploracion_datos df_vacio_objeto True True =
     ([Forma 0 2, Regla, Duplicados 0, Regla, TituloNumericas, Describe [(''edad'', 0)],
       Regla, TituloCategoricas, DescribeO [(''ciudad'', 0, 0)], Regla, TituloNulos,
       TablaNulos [], Regla, TituloUnicos, Unicos [(''ciudad'', 0), (''edad'', 0)],
       Regla, TituloInfo, Info [(''ciudad'', 0, Objeto), (''edad'', 0, Numerico)],
       MostrarNone], None)"
proof -
  have w: "bien_formado df_vacio_objeto"
    by (simp add: bien_formado_def df_vacio_objeto_def)
  have f: "filas df_vacio_objeto = 0"
    by (simp add: df_vacio_objeto_def)
  show ?thesis
    using exploracion_datos_vacio [OF w f, of True True] w f
    by (simp add: df_vacio_objeto_def)
qed

text \<open>
  C6 as stated fails: on a dataset without rows whose only column is numeric the
  profiler raises \<^verbatim>\<open>ValueError\<close> after the first statistics table.
\<close>

theorem exploracion_datos_vacio_counterexample:
  "bien_formado df_vacio_numerico \<and> filas df_vacio_numerico = 0 \<and>
   exploracion_datos df_vacio_numerico True False =
     ([Forma 0 1, Regla, Duplicados 0, Regla, TituloNumericas, Describe [(''edad'', 0)],
       Regla, TituloCategoricas], Some (ValueError ''No objects to concatenate''))"
  by (simp add: exploracion_datos_def describe_def describe_O_def df_vacio_numerico_def Let_def
        duplicated_sum_def count_col_def bien_formado_def)

section \<open>When the test returns\<close>

lemma crosstab_longitudes:
  "length (celdas (crosstab xs ys)) = length (indice (crosstab xs ys))"
  by (simp add: crosstab_def Let_def)

lemma crosstab_vacia:
  "(indice (crosstab xs ys) = []) = (presentes xs ys = [])"
  "(cabecera (crosstab xs ys) = []) = (presentes xs ys = [])"
proof -
  have "(etiquetas vs = []) = (vs = [])" for vs
    using set_etiquetas [of vs] by (metis set_empty)
  then show "(indice (crosstab xs ys) = []) = (presentes xs ys = [])"
    and "(cabecera (crosstab xs ys) = []) = (presentes xs ys = [])"
    by (simp_all add: crosstab_def Let_def)
qed

lemma crosstab_fila_positiva:
  assumes "i < length (indice (crosstab xs ys))"
  shows "0 < sumas_filas (celdas (crosstab xs ys)) ! i"
proof -
  let ?ps = "presentes xs ys"
  let ?fs = "etiquetas (map fst ?ps)"
  let ?cs = "etiquetas (map snd ?ps)"
  have i: "i < length ?fs" using assms by (simp add: crosstab_def Let_def)
  then have "?fs ! i \<in> set (map fst ?ps)"
    using set_etiquetas nth_mem by blast
  then obtain c where pc: "(?fs ! i, c) \<in> set ?ps" by auto
  then have "c \<in> set ?cs" by (force simp: set_etiquetas)
  then have "count_list ?ps (?fs ! i, c) \<in> set (map (\<lambda>c. count_list ?ps (?fs ! i, c)) ?cs)"
    by simp
  then have "count_list ?ps (?fs ! i, c) \<le> sum_list (map (\<lambda>c. count_list ?ps (?fs ! i, c)) ?cs)"
    by (intro member_le_sum_list) simp_all
  moreover have "0 < count_list ?ps (?fs ! i, c)"
    using pc by (metis count_list_0_iff gr0I)
  ultimately show ?thesis
    using i by (simp add: crosstab_def Let_def sumas_filas_def)
qed

lemma crosstab_columna_positiva:
  assumes "j < length (cabecera (crosstab xs ys))"
  shows "0 < sumas_columnas (length (cabecera (crosstab xs ys))) (celdas (crosstab xs ys)) ! j"
proof -
  let ?ps = "presentes xs ys"
  let ?fs = "etiquetas (map fst ?ps)"
  let ?cs = "etiquetas (map snd ?ps)"
  have j: "j < length ?cs" using assms by (simp add: crosstab_def Let_def)
  then have "?cs ! j \<in> set (map snd ?ps)"
    using set_etiquetas nth_mem by blast
  then obtain f where pf: "(f, ?cs ! j) \<in> set ?ps" by auto
  then have "f \<in> set ?fs" by (force simp: set_etiquetas)
  then have "count_list ?ps (f, ?cs ! j) \<in> set (map (\<lambda>f. count_list ?ps (f, ?cs ! j)) ?fs)"
    by simp
  then have "count_list ?ps (f, ?cs ! j) \<le> sum_list (map (\<lambda>f. count_list ?ps (f, ?cs ! j)) ?fs)"
    by (intro member_le_sum_list) simp_all
  moreover have "0 < count_list ?ps (f, ?cs ! j)"
    using pf by (metis count_list_0_iff gr0I)
  moreover have "map (\<lambda>f. f ! j) (celdas (crosstab xs ys)) =
                 map (\<lambda>f. count_list ?ps (f, ?cs ! j)) ?fs"
    using j by (simp add: crosstab_def Let_def comp_def)
  ultimately show ?thesis
    using j by (simp add: sumas_columnas_def crosstab_def Let_def comp_def)
qed

lemma crosstab_total_positivo:
  "presentes xs ys \<noteq> [] \<Longrightarrow> 0 < gran_total (celdas (crosstab xs ys))"
  by (simp add: total_crosstab)

lemma crosstab_esperada_sin_ceros:
  assumes "presentes xs ys \<noteq> []"
  shows "\<not> list_ex (list_ex (\<lambda>e. e = 0)) (expected_freq (crosstab xs ys))"
proof -
  let ?t = "crosstab xs ys"
  let ?rs = "sumas_filas (celdas ?t)"
  let ?cs = "sumas_columnas (length (cabecera ?t)) (celdas ?t)"
  have n: "0 < gran_total (celdas ?t)" using assms by (rule crosstab_total_positivo)
  have r: "\<forall>r \<in> set ?rs. 0 < r"
  proof
    fix r assume "r \<in> set ?rs"
    then obtain i where "i < length ?rs" "?rs ! i = r" by (auto simp: in_set_conv_nth)
    then show "0 < r"
      using crosstab_fila_positiva [of i xs ys] crosstab_longitudes [of xs ys]
      by (simp add: sumas_filas_def)
  qed
  have c: "\<forall>c \<in> set ?cs. 0 < c"
  proof
    fix c assume "c \<in> set ?cs"
    then obtain j where "j < length ?cs" "?cs ! j = c" by (auto simp: in_set_conv_nth)
    then show "0 < c"
      using crosstab_columna_positiva [of j xs ys] by (simp add: sumas_columnas_def)
  qed
  show ?thesis
    using n r c by (auto simp: expected_freq_def Let_def list_ex_iff)
qed

lemma chi2_contingency_retorna:
  assumes "presentes xs ys \<noteq> []"
  shows "\<exists>chi2 p dof. chi2_contingency sf (crosstab xs ys) =
           Inr (chi2, p, dof, expected_freq (crosstab xs ys))"
proof -
  have "length (indice (crosstab xs ys)) * length (cabecera (crosstab xs ys)) \<noteq> 0"
    using assms crosstab_vacia [of xs ys] by simp
  then show ?thesis
    using crosstab_esperada_sin_ceros [OF assms]
    by (simp add: chi2_contingency_def Let_def)
qed

lemma chi2_contingency_vacia:
  assumes "presentes xs ys = []"
  shows "chi2_contingency sf (crosstab xs ys) = Inl (ValueError ''No data; `observed` has size 0.'')"
  using assms crosstab_vacia [of xs ys] by (simp add: chi2_contingency_def Let_def)

lemma chi2_contingency_degenerada:
  assumes "presentes xs ys \<noteq> []"
    and "length (indice (crosstab xs ys)) < 2 \<or> length (cabecera (crosstab xs ys)) < 2"
  shows "chi2_contingency sf (crosstab xs ys) = Inr (0, 1, 0, expected_freq (crosstab xs ys))"
proof -
  let ?nf = "length (indice (crosstab xs ys))"
  let ?nc = "length (cabecera (crosstab xs ys))"
  have pos: "0 < ?nf" "0 < ?nc"
    using assms(1) crosstab_vacia [of xs ys] by simp_all
  then have "?nf = 1 \<or> ?nc = 1" using assms(2) by linarith
  then have d: "int (?nf * ?nc) - int (?nf + ?nc) + 2 - 1 = 0" by auto
  have z: "?nf * ?nc \<noteq> 0" using pos by simp
  show ?thesis
    using crosstab_esperada_sin_ceros [OF assms(1)] z d
    by (simp add: chi2_contingency_def Let_def)
qed

section \<open>The loop of the analyzer\<close>

lemma getitem_ausente:
  "(getitem df n = Inl (KeyError n)) = (n \<notin> set (map nombre (columnas df)))"
proof (cases "getitem df n")
  case (Inl e)
  then show ?thesis
    by (auto simp: getitem_def find_None_iff split: option.splits)
next
  case (Inr c)
  then show ?thesis using getitem_nombre [OF Inr] by auto
qed

lemma getitem_presente:
  "(\<exists>c. getitem df n = Inr c) = (n \<in> set (map nombre (columnas df)))"
proof (cases "getitem df n")
  case (Inl e)
  then have "getitem df n = Inl (KeyError n)"
    by (auto simp: getitem_def split: option.splits)
  then show ?thesis using Inl getitem_ausente [of df n] by simp
next
  case (Inr c)
  then show ?thesis using getitem_nombre [OF Inr] by auto
qed

lemma np_round_cercano: "\<bar>of_int (np_round x) - x\<bar> \<le> 1 / 2"
proof -
  have "of_int \<lfloor>x\<rfloor> \<le> x" "x < of_int \<lfloor>x\<rfloor> + 1" by linarith+
  then show ?thesis by (auto simp: np_round_def Let_def)
qed

lemma evaluar_categoria_retorna:
  assumes "getitem df categoria = Inr a" "getitem df var_respuesta = Inr b"
    and "chi2_contingency sf (crosstab (valores a) (valores b)) = Inr (chi2, p, dof, esp)"
  shows "evaluar_categoria sf df var_respuesta sig_level categoria =
         ([Evaluando (upper categoria), MostrarTabla (crosstab (valores a) (valores b))] @
          (if p < sig_level
           then [SiDiferencias (upper categoria) p,
                 MostrarEsperada (indice (crosstab (valores a) (valores b)))
                   (cabecera (crosstab (valores a) (valores b))) (map (map np_round) esp)]
           else [NoDiferencias (upper categoria) p]) @
          [Separador], None)"
  using assms by (simp add: evaluar_categoria_def Let_def)

lemma evaluar_categoria_falla_test:
  assumes "getitem df categoria = Inr a" "getitem df var_respuesta = Inr b"
    and "chi2_contingency sf (crosstab (valores a) (valores b)) = Inl e"
  shows "evaluar_categoria sf df var_respuesta sig_level categoria =
         ([Evaluando (upper categoria), MostrarTabla (crosstab (valores a) (valores b))], Some e)"
  using assms by (simp add: evaluar_categoria_def Let_def)

lemma evaluar_categoria_sin_columna:
  assumes "getitem df categoria = Inl e"
  shows "evaluar_categoria sf df var_respuesta sig_level categoria =
         ([Evaluando (upper categoria)], Some e)"
  using assms by (simp add: evaluar_categoria_def Let_def)

lemma evaluar_categoria_exito:
  assumes "getitem df var_respuesta = Inr b"
  shows "(snd (evaluar_categoria sf df var_respuesta sig_level categoria) = None) =
         (\<exists>a. getitem df categoria = Inr a \<and> presentes (valores a) (valores b) \<noteq> [])"
proof (cases "getitem df categoria")
  case (Inl e)
  then show ?thesis by (simp add: evaluar_categoria_sin_columna)
next
  case (Inr a)
  show ?thesis
  proof (cases "presentes (valores a) (valores b) = []")
    case True
    then show ?thesis
      using Inr assms chi2_contingency_vacia [OF True, of sf]
      by (simp add: evaluar_categoria_falla_test)
  next
    case False
    then obtain chi2 p dof where
      "chi2_contingency sf (crosstab (valores a) (valores b)) =
         Inr (chi2, p, dof, expected_freq (crosstab (valores a) (valores b)))"
      using chi2_contingency_retorna by blast
    then show ?thesis
      using Inr assms False by (simp add: evaluar_categoria_retorna)
  qed
qed

lemma detectar_prefijo:
  assumes "\<forall>k \<in> set pre. snd (evaluar_categoria sf df var_respuesta sig_level k) = None"
  shows "detectar_orden_cat_bina sf df (pre @ resto) var_respuesta sig_level =
         (concat (map (\<lambda>k. fst (evaluar_categoria sf df var_respuesta sig_level k)) pre) @
            fst (detectar_orden_cat_bina sf df resto var_respuesta sig_level),
          snd (detectar_orden_cat_bina sf df resto var_respuesta sig_level))"
  using assms
proof (induction pre)
  case Nil
  show ?case by simp
next
  case (Cons k pre)
  obtain s where s: "evaluar_categoria sf df var_respuesta sig_level k = (s, None)"
    using Cons.prems by (cases "evaluar_categoria sf df var_respuesta sig_level k") auto
  show ?case using Cons s by (simp split: prod.splits)
qed

lemma detectar_falla:
  assumes "snd (evaluar_categoria sf df var_respuesta sig_level k) = Some e"
  shows "detectar_orden_cat_bina sf df (k # resto) var_respuesta sig_level =
         (fst (evaluar_categoria sf df var_respuesta sig_level k), Some e)"
  using assms by (cases "evaluar_categoria sf df var_respuesta sig_level k") auto

lemma detectar_sigue:
  assumes "snd (evaluar_categoria sf df var_respuesta sig_level k) = None"
  shows "fst (detectar_orden_cat_bina sf df (k # resto) var_respuesta sig_level) =
         fst (evaluar_categoria sf df var_respuesta sig_level k) @
         fst (detectar_orden_cat_bina sf df resto var_respuesta sig_level)"
  using assms
  by (cases "evaluar_categoria sf df var_respuesta sig_level k") (auto split: prod.splits)

section \<open>Claims about the association analyzer\<close>

text \<open>
  C4. For a column that the analyzer reaches (every earlier column of the list was
  processed without an exception) and whose test returns a p-value, the analyzer
  outputs, after the reports of the earlier columns: the name in upper case, the
  observed table, then exactly one decision, and the separator. The decision is
  "significant" together with the expected table rounded to integers when the p-value
  is strictly below the significance level, and "not significant" alone otherwise.
  Every rounded entry is within one half of the expected frequency.
\<close>

theorem regla_de_decision:
  assumes "\<forall>k \<in> set pre. snd (evaluar_categoria sf df var_respuesta sig_level k) = None"
    and "getitem df categoria = Inr a" and "getitem df var_respuesta = Inr b"
    and "chi2_contingency sf (crosstab (valores a) (valores b)) = Inr (chi2, p, dof, esp)"
  shows "fst (detectar_orden_cat_bina sf df (pre @ categoria # post) var_respuesta sig_level) =
           concat (map (\<lambda>k. fst (evaluar_categoria sf df var_respuesta sig_level k)) pre) @
           [Evaluando (upper categoria), MostrarTabla (crosstab (valores a) (valores b))] @
           (if p < sig_level
            then [SiDiferencias (upper categoria) p,
                  MostrarEsperada (indice (crosstab (valores a) (valores b)))
                    (cabecera (crosstab (valores a) (valores b))) (map (map np_round) esp)]
            else [NoDiferencias (upper categoria) p]) @
           [Separador] @
           fst (detectar_orden_cat_bina sf df post var_respuesta sig_level) \<and>
         (\<forall>f \<in> set esp. \<forall>e \<in> set f. \<bar>of_int (np_round e) - e\<bar> \<le> 1 / 2)"
proof -
  have r: "evaluar_categoria sf df var_respuesta sig_level categoria =
         ([Evaluando (upper categoria), MostrarTabla (crosstab (valores a) (valores b))] @
          (if p < sig_level
           then [SiDiferencias (upper categoria) p,
                 MostrarEsperada (indice (crosstab (valores a) (valores b)))
                   (cabecera (crosstab (valores a) (valores b))) (map (map np_round) esp)]
           else [NoDiferencias (upper categoria) p]) @
          [Separador], None)"
    using assms(2-4) by (rule evaluar_categoria_retorna)
  then have "snd (evaluar_categoria sf df var_respuesta sig_level categoria) = None" by simp
  then have "fst (detectar_orden_cat_bina sf df (categoria # post) var_respuesta sig_level) =
         fst (evaluar_categoria sf df var_respuesta sig_level categoria) @
         fst (detectar_orden_cat_bina sf df post var_respuesta sig_level)"
    by (rule detectar_sigue)
  then show ?thesis
    using detectar_prefijo [OF assms(1), of "categoria # post"] r np_round_cercano
    by simp
qed

text \<open>
  Both branches: a column that follows the response closely, and one that does not.
\<close>

theorem regla_de_decision_witness:
  "fst (detectar_orden_cat_bina sf_ejemplo df_fuerte [''grupo''] ''compra'' (1 / 20)) =
     [Evaluando ''GRUPO'',
      MostrarTabla \<lparr>indice = [Str ''A'', Str ''B''], cabecera = [Num 0, Num 1],
                    celdas = [[0, 6], [6, 0]]\<rparr>,
      SiDiferencias ''GRUPO'' (9 / 784),
      MostrarEsperada [Str ''A'', Str ''B''] [Num 0, Num 1] [[3, 3], [3, 3]],
      Separador] \<and>
   fst (detectar_orden_cat_bina sf_ejemplo df_compras [''sexo''] ''compra'' (1 / 20)) =
     [Evaluando ''SEXO'',
      MostrarTabla \<lparr>indice = [Str ''F'', Str ''M''], cabecera = [Num 0, Num 1],
                    celdas = [[1, 3], [3, 1]]\<rparr>,
      NoDiferencias ''SEXO'' (4 / 9),
      Separador]"
proof -
  let ?g = "\<lparr>nombre = ''grupo'', tipo = Objeto,
        valores = replicate 6 (Some (Str ''A'')) @ replicate 6 (Some (Str ''B''))\<rparr>"
  let ?c = "\<lparr>nombre = ''compra'', tipo = Numerico,
        valores = replicate 6 (Some (Num 1)) @ replicate 6 (Some (Num 0))\<rparr>"
  have p: "\<forall>k \<in> set []. snd (evaluar_categoria sf_ejemplo df_fuerte ''compra'' (1 / 20) k) = None"
    by simp
  have a: "getitem df_fuerte ''grupo'' = Inr ?g" by code_simp
  have b: "getitem df_fuerte ''compra'' = Inr ?c" by code_simp
  have t: "crosstab (valores ?g) (valores ?c) =
             \<lparr>indice = [Str ''A'', Str ''B''], cabecera = [Num 0, Num 1],
              celdas = [[0, 6], [6, 0]]\<rparr>" by code_simp
  have x: "chi2_contingency sf_ejemplo (crosstab (valores ?g) (valores ?c)) =
             Inr (25 / 3, 9 / 784, 1, [[3, 3], [3, 3]])" by code_simp
  have u: "upper ''grupo'' = ''GRUPO''" by code_simp
  have r: "map (map np_round) [[3, 3], [3, 3 :: rat]] = [[3, 3], [3, 3]]" by code_simp
  have 1: "fst (detectar_orden_cat_bina sf_ejemplo df_fuerte [''grupo''] ''compra'' (1 / 20)) =
     [Evaluando ''GRUPO'',
      MostrarTabla \<lparr>indice = [Str ''A'', Str ''B''], cabecera = [Num 0, Num 1],
                    celdas = [[0, 6], [6, 0]]\<rparr>,
      SiDiferencias ''GRUPO'' (9 / 784),
      MostrarEsperada [Str ''A'', Str ''B''] [Num 0, Num 1] [[3, 3], [3, 3]],
      Separador]"
    using regla_de_decision [OF p a b x, of "[]"] unfolding t u r by simp
  have 2: "fst (detectar_orden_cat_bina sf_ejemplo df_compras [''sexo''] ''compra'' (1 / 20)) =
     [Evaluando ''SEXO'',
      MostrarTabla \<lparr>indice = [Str ''F'', Str ''M''], cabecera = [Num 0, Num 1],
                    celdas = [[1, 3], [3, 1]]\<rparr>,
      NoDiferencias ''SEXO'' (4 / 9),
      Separador]"
    by code_simp
  show ?thesis using 1 2 by simp
qed

text \<open>
  C1, as amended. The analyzer has no report of its own for a column without enough
  variation. When the table of a column has a single row or a single column, SciPy
  returns the p-value 1 for zero degrees of freedom and the analyzer reports the
  ordinary decision for that p-value ("not significant" for every significance level
  up to 1), without an exception. When no row has both values present the table is
  empty and the \<^verbatim>\<open>ValueError\<close> of SciPy propagates.
\<close>

theorem variacion_insuficiente:
  assumes "getitem df categoria = Inr a" and "getitem df var_respuesta = Inr b"
    and "length (indice (crosstab (valores a) (valores b))) < 2 \<or>
         length (cabecera (crosstab (valores a) (valores b))) < 2"
  shows "evaluar_categoria sf df var_respuesta sig_level categoria =
           (if presentes (valores a) (valores b) = []
            then ([Evaluando (upper categoria), MostrarTabla (crosstab (valores a) (valores b))],
                  Some (ValueError ''No data; `observed` has size 0.''))
            else ([Evaluando (upper categoria), MostrarTabla (crosstab (valores a) (valores b))] @
                  (if 1 < sig_level
                   then [SiDiferencias (upper categoria) 1,
                         MostrarEsperada (indice (crosstab (valores a) (valores b)))
                           (cabecera (crosstab (valores a) (valores b)))
                           (map (map np_round) (expected_freq (crosstab (valores a) (valores b))))]
                   else [NoDiferencias (upper categoria) 1]) @
                  [Separador], None))"
proof (cases "presentes (valores a) (valores b) = []")
  case True
  then show ?thesis
    using evaluar_categoria_falla_test [OF assms(1,2) chi2_contingency_vacia [OF True]]
    by simp
next
  case False
  then show ?thesis
    using evaluar_categoria_retorna [OF assms(1,2) chi2_contingency_degenerada [OF False assms(3)]]
    by simp
qed

text \<open>
  The column \<open>zona\<close> has the single value \<open>N\<close>: one row in the table, p-value 1.
\<close>

theorem variacion_insuficiente_witness:
  "evaluar_categoria sf_ejemplo df_compras ''compra'' (1 / 20) ''zona'' =
     ([Evaluando ''ZONA'',
       MostrarTabla \<lparr>indice = [Str ''N''], cabecera = [Num 0, Num 1], celdas = [[4, 4]]\<rparr>,
       NoDiferencias ''ZONA'' 1, Separador], None)"
proof -
  let ?z = "\<lparr>nombre = ''zona'', tipo = Objeto, valores = replicate 8 (Some (Str ''N''))\<rparr>"
  let ?c = "\<lparr>nombre = ''compra'', tipo = Numerico, valores = compra_ej\<rparr>"
  have a: "getitem df_compras ''zona'' = Inr ?z" by code_simp
  have b: "getitem df_compras ''compra'' = Inr ?c" by code_simp
  have t: "crosstab (valores ?z) (valores ?c) =
             \<lparr>indice = [Str ''N''], cabecera = [Num 0, Num 1], celdas = [[4, 4]]\<rparr>"
    by code_simp
  have l: "length (indice (crosstab (valores ?z) (valores ?c))) < 2 \<or>
           length (cabecera (crosstab (valores ?z) (valores ?c))) < 2"
    unfolding t by simp
  have n: "presentes (valores ?z) (valores ?c) \<noteq> []" by code_simp
  have u: "upper ''zona'' = ''ZONA''" by code_simp
  show ?thesis
    using variacion_insuficiente [OF a b l, of sf_ejemplo "1 / 20"] n unfolding t u by simp
qed

text \<open>
  C1 as stated fails: the column \<open>canal\<close> has no observed value, fewer than two, and
  the call ends with the exception of SciPy instead of a report.
\<close>

theorem variacion_insuficiente_counterexample:
  "detectar_orden_cat_bina sf_ejemplo df_compras [''canal''] ''compra'' (1 / 20) =
     ([Evaluando ''CANAL'', MostrarTabla \<lparr>indice = [], cabecera = [], celdas = []\<rparr>],
      Some (ValueError ''No data; `observed` has size 0.''))"
  by code_simp

text \<open>
  C2, as amended. With the response column in the schema, a column is processed
  without an exception exactly when it is in the schema and some row has both values
  present; a column with a single value is such a column. When every column of the list
  is of this kind the call returns and its output is the reports of the columns in the
  order of the list. Otherwise the call ends at the first column that is not: the
  output is the reports of the columns before it and what that column had output, the
  exception is that column's, and no later column is reported.
\<close>

theorem lote_hasta_primer_fallo:
  assumes "getitem df var_respuesta = Inr b"
  shows "(\<forall>k. (snd (evaluar_categoria sf df var_respuesta sig_level k) = None) =
              (\<exists>a. getitem df k = Inr a \<and> presentes (valores a) (valores b) \<noteq> [])) \<and>
         ((\<forall>k \<in> set lista_cat. snd (evaluar_categoria sf df var_respuesta sig_level k) = None) \<longrightarrow>
            detectar_orden_cat_bina sf df lista_cat var_respuesta sig_level =
              (concat (map (\<lambda>k. fst (evaluar_categoria sf df var_respuesta sig_level k)) lista_cat),
               None)) \<and>
         (\<forall>pre k post e.
            lista_cat = pre @ k # post \<and>
            (\<forall>j \<in> set pre. snd (evaluar_categoria sf df var_respuesta sig_level j) = None) \<and>
            snd (evaluar_categoria sf df var_respuesta sig_level k) = Some e \<longrightarrow>
            detectar_orden_cat_bina sf df lista_cat var_respuesta sig_level =
              (concat (map (\<lambda>j. fst (evaluar_categoria sf df var_respuesta sig_level j)) pre) @
                 fst (evaluar_categoria sf df var_respuesta sig_level k),
               Some e))"
proof (intro conjI allI impI)
  fix k
  show "(snd (evaluar_categoria sf df var_respuesta sig_level k) = None) =
        (\<exists>a. getitem df k = Inr a \<and> presentes (valores a) (valores b) \<noteq> [])"
    using assms by (rule evaluar_categoria_exito)
next
  assume "\<forall>k \<in> set lista_cat. snd (evaluar_categoria sf df var_respuesta sig_level k) = None"
  then show "detectar_orden_cat_bina sf df lista_cat var_respuesta sig_level =
      (concat (map (\<lambda>k. fst (evaluar_categoria sf df var_respuesta sig_level k)) lista_cat), None)"
    using detectar_prefijo [of lista_cat sf df var_respuesta sig_level "[]"] by simp
next
  fix pre k post e
  assume h: "lista_cat = pre @ k # post \<and>
            (\<forall>j \<in> set pre. snd (evaluar_categoria sf df var_respuesta sig_level j) = None) \<and>
            snd (evaluar_categoria sf df var_respuesta sig_level k) = Some e"
  then have "detectar_orden_cat_bina sf df (k # post) var_respuesta sig_level =
         (fst (evaluar_categoria sf df var_respuesta sig_level k), Some e)"
    by (intro detectar_falla) simp
  then show "detectar_orden_cat_bina sf df lista_cat var_respuesta sig_level =
              (concat (map (\<lambda>j. fst (evaluar_categoria sf df var_respuesta sig_level j)) pre) @
                 fst (evaluar_categoria sf df var_respuesta sig_level k),
               Some e)"
    using h detectar_prefijo [of pre sf df var_respuesta sig_level "k # post"] by simp
qed

text \<open>
  The single-valued \<open>zona\<close> does not stop the batch: \<open>sexo\<close> is reported after it.
\<close>

theorem lote_hasta_primer_fallo_witness:
  "detectar_orden_cat_bina sf_ejemplo df_compras [''zona'', ''sexo''] ''compra'' (1 / 20) =
     ([Evaluando ''ZONA'',
       MostrarTabla \<lparr>indice = [Str ''N''], cabecera = [Num 0, Num 1], celdas = [[4, 4]]\<rparr>,
       NoDiferencias ''ZONA'' 1, Separador,
       Evaluando ''SEXO'',
       MostrarTabla \<lparr>indice = [Str ''F'', Str ''M''], cabecera = [Num 0, Num 1],
                     celdas = [[1, 3], [3, 1]]\<rparr>,
       NoDiferencias ''SEXO'' (4 / 9), Separador],
      None)"
proof -
  let ?c = "\<lparr>nombre = ''compra'', tipo = Numerico, valores = compra_ej\<rparr>"
  have b: "getitem df_compras ''compra'' = Inr ?c" by code_simp
  have z: "evaluar_categoria sf_ejemplo df_compras ''compra'' (1 / 20) ''zona'' =
     ([Evaluando ''ZONA'',
       MostrarTabla \<lparr>indice = [Str ''N''], cabecera = [Num 0, Num 1], celdas = [[4, 4]]\<rparr>,
       NoDiferencias ''ZONA'' 1, Separador], None)" by code_simp
  have s: "evaluar_categoria sf_ejemplo df_compras ''compra'' (1 / 20) ''sexo'' =
     ([Evaluando ''SEXO'',
       MostrarTabla \<lparr>indice = [Str ''F'', Str ''M''], cabecera = [Num 0, Num 1],
                     celdas = [[1, 3], [3, 1]]\<rparr>,
       NoDiferencias ''SEXO'' (4 / 9), Separador], None)" by code_simp
  have "\<forall>k \<in> set [''zona'', ''sexo''].
          snd (evaluar_categoria sf_ejemplo df_compras ''compra'' (1 / 20) k) = None"
    using z s by simp
  then have "detectar_orden_cat_bina sf_ejemplo df_compras [''zona'', ''sexo''] ''compra'' (1 / 20) =
      (concat (map (\<lambda>k. fst (evaluar_categoria sf_ejemplo df_compras ''compra'' (1 / 20) k))
                 [''zona'', ''sexo'']), None)"
    using lote_hasta_primer_fallo [OF b, of sf_ejemplo "1 / 20" "[''zona'', ''sexo'']"]
    by blast
  then show ?thesis by (simp add: z s)
qed

text \<open>
  C2 as stated fails: \<open>canal\<close> has no observed value, the call ends there with
  \<^verbatim>\<open>ValueError\<close>, and \<open>sexo\<close>, which on its own is processed without an exception, is
  never reported.
\<close>

theorem lote_hasta_primer_fallo_counterexample:
  "detectar_orden_cat_bina sf_ejemplo df_compras [''canal'', ''sexo''] ''compra'' (1 / 20) =
     ([Evaluando ''CANAL'', MostrarTabla \<lparr>indice = [], cabecera = [], celdas = []\<rparr>],
      Some (ValueError ''No data; `observed` has size 0.'')) \<and>
   snd (evaluar_categoria sf_ejemplo df_compras ''compra'' (1 / 20) ''sexo'') = None"
  by code_simp

text \<open>
  C3, as amended. When a name of the list is not in the schema and every column before
  it in the list was processed without an exception, the call raises \<^verbatim>\<open>KeyError\<close> with
  exactly that name. Before it the analyzer has output the full reports of the earlier
  columns, tables included, and the heading of the unknown column; no table is built
  for the unknown column or for any column after it.
\<close>

theorem columna_desconocida:
  assumes "\<forall>k \<in> set pre. snd (evaluar_categoria sf df var_respuesta sig_level k) = None"
    and "categoria \<notin> set (map nombre (columnas df))"
  shows "detectar_orden_cat_bina sf df (pre @ categoria # post) var_respuesta sig_level =
           (concat (map (\<lambda>k. fst (evaluar_categoria sf df var_respuesta sig_level k)) pre) @
              [Evaluando (upper categoria)],
            Some (KeyError categoria))"
proof -
  have "getitem df categoria = Inl (KeyError categoria)"
    using assms(2) getitem_ausente by blast
  then have e: "evaluar_categoria sf df var_respuesta sig_level categoria =
                  ([Evaluando (upper categoria)], Some (KeyError categoria))"
    by (rule evaluar_categoria_sin_columna)
  then have "detectar_orden_cat_bina sf df (categoria # post) var_respuesta sig_level =
               ([Evaluando (upper categoria)], Some (KeyError categoria))"
    using detectar_falla [of sf df var_respuesta sig_level categoria "KeyError categoria" post]
    by simp
  then show ?thesis
    using detectar_prefijo [OF assms(1), of "categoria # post"] by simp
qed

text \<open>
  The unknown name comes first: nothing but its heading is output.
\<close>

theorem columna_desconocida_witness:
  "detectar_orden_cat_bina sf_ejemplo df_compras [''barrio'', ''sexo''] ''compra'' (1 / 20) =
     ([Evaluando ''BARRIO''], Some (KeyError ''barrio''))"
proof -
  have p: "\<forall>k \<in> set []. snd (evaluar_categoria sf_ejemplo df_compras ''compra'' (1 / 20) k) = None"
    by simp
  have n: "''barrio'' \<notin> set (map nombre (columnas df_compras))" by code_simp
  have u: "upper ''barrio'' = ''BARRIO''" by code_simp
  show ?thesis
    using columna_desconocida [OF p n, of "[''sexo'']"] unfolding u by simp
qed

text \<open>
  C3 as stated fails: with the unknown name second in the list, the table of the first
  column has been built and displayed before the \<^verbatim>\<open>KeyError\<close>.
\<close>

theorem columna_desconocida_counterexample:
  "take 2 (fst (detectar_orden_cat_bina sf_ejemplo df_compras [''sexo'', ''barrio''] ''compra'' (1 / 20))) =
     [Evaluando ''SEXO'',
      MostrarTabla \<lparr>indice = [Str ''F'', Str ''M''], cabecera = [Num 0, Num 1],
                    celdas = [[1, 3], [3, 1]]\<rparr>] \<and>
   snd (detectar_orden_cat_bina sf_ejemplo df_compras [''sexo'', ''barrio''] ''compra'' (1 / 20)) =
     Some (KeyError ''barrio'')"
  by code_simp

end
